theory Spec2Isabelle
  imports Complex_Main "HOL-Library.Char_ord" "HOL-Library.List_Lexorder" "HOL-Library.Sublist"
begin

section \<open>Hamiltonian thermodynamic integration (hti.py)\<close>

text \<open>
  A shallow embedding of the free-energy post-processing and of the refinement planner of
  \<^verbatim>\<open>src/hti.py\<close>. Conventions:
  \<^item> Python and numpy floats are modelled as the real numbers they approximate: rounding,
    \<^verbatim>\<open>inf\<close> and \<^verbatim>\<open>nan\<close> are outside the model, and a numpy division by zero (which only warns)
    is HOL's total division;
  \<^item> every \<^verbatim>\<open>raise\<close>, failed \<^verbatim>\<open>assert\<close> and failed lookup is the \<open>Inl\<close> branch of a sum;
  \<^item> a function of the source whose name starts with an underscore is written with the
    prefix \<open>p_\<close> (\<^verbatim>\<open>_post_tasks\<close> is \<open>p_post_tasks\<close>);
  \<^item> the helpers imported from \<^verbatim>\<open>lib.utils\<close>, \<^verbatim>\<open>pymbar\<close> and \<^verbatim>\<open>scipy.constants\<close>
    are not part of the sources; they are the fields of the record \<open>collab\<close>, and every
    theorem holds for all of them.
\<close>

subsection \<open>Python values\<close>

datatype py_error =
    RuntimeError string
  | NameError string
  | UnboundLocalError string
  | KeyError string
  | IndexError
  | AssertionError
  | FileNotFoundError string
  | TypeError
  | ValueError
  | OSError string

type_synonym 'a result = "py_error + 'a"

text \<open>\<^verbatim>\<open>xs[i]\<close> on a list or a one-dimensional array: a negative index counts from the end.\<close>

definition getitem :: "'a list \<Rightarrow> int \<Rightarrow> 'a result" where
  "getitem xs i =
     (if 0 \<le> i \<and> i < int (length xs) then Inr (xs ! nat i)
      else if i < 0 \<and> - int (length xs) \<le> i then Inr (xs ! nat (int (length xs) + i))
      else Inl IndexError)"

text \<open>\<^verbatim>\<open>xs[k:]\<close>: a negative start counts from the end and is clipped at the front.\<close>

definition slice_from :: "int \<Rightarrow> 'a list \<Rightarrow> 'a list" where
  "slice_from k xs =
     (if 0 \<le> k then drop (nat k) xs else drop (length xs - nat (- k)) xs)"

text \<open>
  \<^verbatim>\<open>d[:, k]\<close> on the array \<^verbatim>\<open>np.array(rows)\<close>: the array is two-dimensional only when there
  is a row and all rows have one length; otherwise, and when the column is out of range,
  numpy raises \<^verbatim>\<open>IndexError\<close>.
\<close>

definition column :: "real list list \<Rightarrow> nat \<Rightarrow> real list result" where
  "column d k =
     (if d \<noteq> [] \<and> list_all (\<lambda>r. length r = length (hd d)) d \<and> k < length (hd d)
      then Inr (map (\<lambda>r. r ! k) d) else Inl IndexError)"

text \<open>\<^verbatim>\<open>os.path.join(a, b)\<close> for two components.\<close>

definition path_join :: "string \<Rightarrow> string \<Rightarrow> string" where
  "path_join a b =
     (if b \<noteq> [] \<and> hd b = CHR ''/'' then b
      else if a = [] \<or> last a = CHR ''/'' then a @ b
      else a @ ''/'' @ b)"

text \<open>\<^verbatim>\<open>np.linalg.norm\<close> of a vector.\<close>

definition linalg_norm :: "real list \<Rightarrow> real" where
  "linalg_norm xs = sqrt (sum_list (map (\<lambda>x. x\<^sup>2) xs))"

subsection \<open>Collaborators outside the sources\<close>

record collab =
  block_avg :: "real list \<Rightarrow> int \<Rightarrow> int \<Rightarrow> (real \<times> real) result"
  integrate_range ::
    "real list \<Rightarrow> real list \<Rightarrow> real list \<Rightarrow> string \<Rightarrow>
       (real list \<times> real list \<times> real list \<times> real list) result"
  compute_nrefine :: "real list \<Rightarrow> real list \<Rightarrow> real \<Rightarrow> int list result"
  mbar_free_energy_differences ::
    "real list list \<Rightarrow> nat list \<Rightarrow> (real list list \<times> real list list) result"
  electron_volt :: real
  Boltzmann :: real

subsection \<open>Task output and its reduction\<close>

text \<open>
  What post-processing reads of one task directory: the number in \<^verbatim>\<open>lambda.out\<close> and the
  table \<^verbatim>\<open>get_thermo\<close> parses out of \<^verbatim>\<open>log.lammps\<close>.
\<close>

record task_output =
  lambda_out :: real
  log_lammps :: "real list list"

text \<open>
  A stage directory: its \<^verbatim>\<open>task.[0-9]*\<close> directories in sorted order, the optional
  \<^verbatim>\<open>task.endpnt\<close>, and the atom count \<^verbatim>\<open>get_natoms\<close> reads from the configuration
  (times the product of \<^verbatim>\<open>copies\<close>).
\<close>

record stage =
  all_tasks :: "task_output list"
  task_endpnt :: "task_output option"
  conf_natoms :: nat

record post_config =
  stat_skip :: int
  stat_bsize :: int
  temp :: real

record thermo_info =
  th_p :: real
  th_p_err :: real
  th_v :: real
  th_v_err :: real
  th_e :: real
  th_e_err :: real
  th_h :: real
  th_h_err :: real
  th_t :: real
  th_t_err :: real
  th_pv :: real
  th_pv_err :: real

text \<open>\<^verbatim>\<open>block_avg(data[:, k], skip = stat_skip, block_size = stat_bsize)\<close>.\<close>

definition block_avg_column ::
  "collab \<Rightarrow> real list list \<Rightarrow> nat \<Rightarrow> int \<Rightarrow> int \<Rightarrow> (real \<times> real) result" where
  "block_avg_column X d k skip bsize =
     (case column d k of Inl e \<Rightarrow> Inl e | Inr c \<Rightarrow> block_avg X c skip bsize)"

definition p_compute_thermo ::
  "collab \<Rightarrow> real list list \<Rightarrow> nat \<Rightarrow> int \<Rightarrow> int \<Rightarrow> thermo_info result" where
  "p_compute_thermo X d natoms skip bsize =
     (case block_avg_column X d 3 skip bsize of Inl e \<Rightarrow> Inl e | Inr (ea, ee) \<Rightarrow>
      case block_avg_column X d 4 skip bsize of Inl e \<Rightarrow> Inl e | Inr (ha, he) \<Rightarrow>
      case block_avg_column X d 5 skip bsize of Inl e \<Rightarrow> Inl e | Inr (ta, te) \<Rightarrow>
      case block_avg_column X d 6 skip bsize of Inl e \<Rightarrow> Inl e | Inr (pa, pe) \<Rightarrow>
      case block_avg_column X d 7 skip bsize of Inl e \<Rightarrow> Inl e | Inr (va, ve) \<Rightarrow>
        (let unit_cvt = 10 ^ 5 * ((1 / 10 ^ 10) ^ 3) / electron_volt X in
         Inr \<lparr> th_p = pa, th_p_err = pe,
               th_v = va / real natoms, th_v_err = ve / sqrt (real natoms),
               th_e = ea / real natoms, th_e_err = ee / sqrt (real natoms),
               th_h = ha / real natoms, th_h_err = he / sqrt (real natoms),
               th_t = ta, th_t_err = te,
               th_pv = pa * va * unit_cvt / real natoms,
               th_pv_err = pe * va * unit_cvt / sqrt (real natoms) \<rparr>))"

text \<open>The reduced observables of one task (the loop body of \<^verbatim>\<open>_post_tasks\<close>, lines 691-707).\<close>

record reduced =
  r_lambda :: real
  r_es :: real
  r_ed :: real
  r_es_err :: real
  r_ed_err :: real

definition reduce_task ::
  "collab \<Rightarrow> nat \<Rightarrow> int \<Rightarrow> int \<Rightarrow> task_output \<Rightarrow> reduced result" where
  "reduce_task X natoms skip bsize t =
     (case block_avg_column X (log_lammps t) 8 skip bsize of Inl e \<Rightarrow> Inl e | Inr (sa, se) \<Rightarrow>
      case block_avg_column X (log_lammps t) 9 skip bsize of Inl e \<Rightarrow> Inl e | Inr (da, de) \<Rightarrow>
        Inr \<lparr> r_lambda = lambda_out t,
              r_es = sa / real natoms, r_ed = da / real natoms,
              r_es_err = se / sqrt (real natoms), r_ed_err = de / sqrt (real natoms) \<rparr>)"

fun reduce_tasks ::
  "collab \<Rightarrow> nat \<Rightarrow> int \<Rightarrow> int \<Rightarrow> task_output list \<Rightarrow> reduced list result" where
  "reduce_tasks X natoms skip bsize [] = Inr []"
| "reduce_tasks X natoms skip bsize (t # ts) =
     (case reduce_task X natoms skip bsize t of Inl e \<Rightarrow> Inl e | Inr r \<Rightarrow>
      case reduce_tasks X natoms skip bsize ts of Inl e \<Rightarrow> Inl e | Inr rs \<Rightarrow> Inr (r # rs))"

subsection \<open>The quadrature estimator (\<^verbatim>\<open>_post_tasks\<close>)\<close>

text \<open>
  The integrand and its error per task (lines 714-737). The numpy arrays \<^verbatim>\<open>all_lambda\<close>,
  \<^verbatim>\<open>all_es\<close>, \<^verbatim>\<open>all_ed\<close>, \<^verbatim>\<open>all_es_err\<close>, \<^verbatim>\<open>all_ed_err\<close> are filled in one loop and have
  one length; they are the list of \<open>reduced\<close> records, and an elementwise array operation
  is a \<open>map\<close> over it.
\<close>

definition stage_integrand ::
  "string \<Rightarrow> string \<Rightarrow> reduced list \<Rightarrow> (real list \<times> real list) result" where
  "stage_integrand switch step rs =
     (if switch = ''one-step'' \<or> switch = ''two-step'' then
        (if step = ''both'' then
           Inr (map (\<lambda>r. r_ed r / r_lambda r - r_es r / (1 - r_lambda r)) rs,
                map (\<lambda>r. sqrt ((r_ed_err r / r_lambda r)\<^sup>2 + (r_es_err r / (1 - r_lambda r))\<^sup>2)) rs)
         else if step = ''deep_on'' then
           Inr (map (\<lambda>r. r_ed r / r_lambda r) rs,
                map (\<lambda>r. r_ed_err r / r_lambda r) rs)
         else if step = ''spring_off'' then
           Inr (map (\<lambda>r. - r_es r / (1 - r_lambda r)) rs,
                map (\<lambda>r. r_es_err r / (1 - r_lambda r)) rs)
         else Inl (RuntimeError ''unknow step''))
      else if switch = ''three-step'' then
        (if step = ''lj_on'' \<or> step = ''deep_on'' then
           Inr (map r_ed rs, map r_ed_err rs)
         else if step = ''spring_off'' then
           Inr (map (\<lambda>r. - r_es r / (1 - r_lambda r) + r_ed r) rs,
                map (\<lambda>r. sqrt ((r_es_err r / (1 - r_lambda r))\<^sup>2 + (r_ed_err r)\<^sup>2)) rs)
         else Inl (RuntimeError ''unknow step''))
      else Inl (RuntimeError ''unknow switch''))"

text \<open>
  The rows of \<^verbatim>\<open>hti.out\<close> (lines 739-752), before \<^verbatim>\<open>np.savetxt\<close> formats them:
  \<^verbatim>\<open>lmbda dU dU_err Ud Us Ud_err Us_err\<close>.
\<close>

definition hti_out_rows :: "reduced list \<Rightarrow> real list \<Rightarrow> real list \<Rightarrow> real list list" where
  "hti_out_rows rs de all_err =
     map (\<lambda>(r, d, e).
            [r_lambda r, d, e, r_ed r / r_lambda r, r_es r / (1 - r_lambda r),
             r_ed_err r / r_lambda r, r_es_err r / (1 - r_lambda r)])
       (zip rs (zip de all_err))"

text \<open>
  The integration and the fix-up of the last interval (lines 754-766). The result is
  \<^verbatim>\<open>(diff_e, err, sys_err)\<close>.
\<close>

definition integrate_stage ::
  "collab \<Rightarrow> string \<Rightarrow> real list \<Rightarrow> real list \<Rightarrow> real list \<Rightarrow> (real \<times> real \<times> real) result" where
  "integrate_stage X scheme all_lambda de all_err =
     (case integrate_range X all_lambda de all_err scheme of Inl e \<Rightarrow> Inl e
      | Inr (new_lambda, i, i_e, s_e) \<Rightarrow>
      (case getitem new_lambda (- 1) of Inl e \<Rightarrow> Inl e | Inr nl \<Rightarrow>
      (case getitem all_lambda (- 1) of Inl e \<Rightarrow> Inl e | Inr al \<Rightarrow>
       if nl \<noteq> al then
         (case getitem all_lambda (- 2) of Inl e \<Rightarrow> Inl e | Inr al2 \<Rightarrow>
          if nl = al2 then
            (case integrate_range X (slice_from (- 2) all_lambda) (slice_from (- 2) de)
                    (slice_from (- 2) all_err) ''t'' of Inl e \<Rightarrow> Inl e
             | Inr (u, i1, i_e1, s_e1) \<Rightarrow>
             (case getitem i (- 1) of Inl e \<Rightarrow> Inl e | Inr i_last \<Rightarrow>
             (case getitem i1 (- 1) of Inl e \<Rightarrow> Inl e | Inr i1_last \<Rightarrow>
             (case getitem s_e (- 1) of Inl e \<Rightarrow> Inl e | Inr s_e_last \<Rightarrow>
             (case getitem s_e1 (- 1) of Inl e \<Rightarrow> Inl e | Inr s_e1_last \<Rightarrow>
             (case getitem i_e (- 1) of Inl e \<Rightarrow> Inl e | Inr i_e_last \<Rightarrow>
             (case getitem i_e1 (- 1) of Inl e \<Rightarrow> Inl e | Inr i_e1_last \<Rightarrow>
                Inr (i_last + i1_last, linalg_norm [s_e_last, s_e1_last],
                     i_e_last + i_e1_last))))))))
          else Inl (RuntimeError ''lambda does not match!''))
       else
         (case getitem i (- 1) of Inl e \<Rightarrow> Inl e | Inr i_last \<Rightarrow>
         (case getitem s_e (- 1) of Inl e \<Rightarrow> Inl e | Inr s_e_last \<Rightarrow>
         (case getitem i_e (- 1) of Inl e \<Rightarrow> Inl e | Inr i_e_last \<Rightarrow>
            Inr (i_last, s_e_last, i_e_last)))))))"

text \<open>
  The thermodynamic read-out (lines 771-781): from \<^verbatim>\<open>task.endpnt\<close> when it is there, from
  the last task otherwise.
\<close>

definition stage_thermo :: "collab \<Rightarrow> stage \<Rightarrow> nat \<Rightarrow> int \<Rightarrow> int \<Rightarrow> thermo_info result" where
  "stage_thermo X st natoms skip bsize =
     (case task_endpnt st of
        Some t \<Rightarrow> p_compute_thermo X (log_lammps t) natoms skip bsize
      | None \<Rightarrow>
         (case getitem (all_tasks st) (- 1) of Inl e \<Rightarrow> Inl e
          | Inr t \<Rightarrow> p_compute_thermo X (log_lammps t) natoms skip bsize))"

text \<open>
  \<^verbatim>\<open>_post_tasks\<close>. The stage directory is looked up in \<open>stages\<close>; a directory that is not
  there has no configuration file, and the assertion of line 678 fails. The result is
  \<^verbatim>\<open>(diff_e, [err, sys_err], thermo_info)\<close>.
\<close>

type_synonym stage_result = "real \<times> (real \<times> real) \<times> thermo_info"

definition p_post_tasks ::
  "collab \<Rightarrow> (string \<Rightarrow> stage option) \<Rightarrow> string \<Rightarrow> post_config \<Rightarrow> nat option \<Rightarrow>
     string \<Rightarrow> string \<Rightarrow> string \<Rightarrow> stage_result result" where
  "p_post_tasks X stages iter_name jdata natoms scheme switch step =
     (case stages iter_name of None \<Rightarrow> Inl AssertionError | Some st \<Rightarrow>
      (let n = (case natoms of None \<Rightarrow> conf_natoms st | Some k \<Rightarrow> k) in
       case reduce_tasks X n (stat_skip jdata) (stat_bsize jdata) (all_tasks st) of
         Inl e \<Rightarrow> Inl e
       | Inr rs \<Rightarrow>
       (case stage_integrand switch step rs of Inl e \<Rightarrow> Inl e | Inr (de, all_err) \<Rightarrow>
       (case integrate_stage X scheme (map r_lambda rs) de all_err of Inl e \<Rightarrow> Inl e
        | Inr (diff_e, err, sys_err) \<Rightarrow>
       (case stage_thermo X st n (stat_skip jdata) (stat_bsize jdata) of Inl e \<Rightarrow> Inl e
        | Inr info \<Rightarrow> Inr (diff_e, (err, sys_err), info))))))"

subsection \<open>The reweighting estimator (\<^verbatim>\<open>_post_tasks_mbar\<close>)\<close>

text \<open>
  A name that a function never assigns is looked up in the module's namespace (and then in
  the builtins) when the statement runs. These are the names \<^verbatim>\<open>hti.py\<close> binds at module
  level: its imports and its functions.
\<close>

datatype py_value = PyStr string | PyObject string

definition hti_module_names :: "string list" where
  "hti_module_names =
     [''os'', ''sys'', ''json'', ''argparse'', ''glob'', ''shutil'', ''np'', ''pc'', ''pymbar'',
      ''einstein'', ''create_path'', ''copy_file_list'', ''block_avg'', ''integrate_range'',
      ''compute_nrefine'', ''parse_seq'', ''get_task_file_abspath'', ''get_thermo'',
      ''get_natoms'', ''make_iter_name'', ''_ff_lj_on'', ''_ff_deep_on'', ''_ff_lj_off'',
      ''_ff_spring'', ''_ff_soft_lj'', ''_ff_two_steps'', ''_gen_lammps_input'',
      ''_gen_lammps_input_ideal'', ''make_tasks'', ''_make_tasks'', ''refine_task'',
      ''_compute_thermo'', ''post_tasks'', ''_post_tasks'', ''_post_tasks_mbar'',
      ''print_thermo_info'', ''_main'']"

definition load_global :: "string \<Rightarrow> py_value result" where
  "load_global name =
     (if name \<in> set hti_module_names then Inr (PyObject name) else Inl (NameError name))"

text \<open>
  The block of the matrix \<open>ukn\<close> that one task contributes (lines 820-843): one row per
  target lambda, one column per retained sample. \<open>lam_idx\<close> is the task's own lambda.
\<close>

definition mbar_block ::
  "real \<Rightarrow> int \<Rightarrow> real list \<Rightarrow> real \<Rightarrow> real list \<Rightarrow> real list \<Rightarrow> real list list result" where
  "mbar_block kt_in_ev skip all_lambda lam_idx c9 c8 =
     (let this_ed = slice_from skip (map (\<lambda>x. x / kt_in_ev) c9);
          this_es = slice_from skip (map (\<lambda>x. x / kt_in_ev) c8)
      in case load_global ''switch_style'' of Inl e \<Rightarrow> Inl e | Inr switch_style \<Rightarrow>
         if switch_style = PyStr ''both'' then
           (let ed = map (\<lambda>x. x / lam_idx) this_ed; es = map (\<lambda>x. x / (1 - lam_idx)) this_es
            in Inr (map (\<lambda>ll. map (\<lambda>(d, s). d * ll + s * (1 - ll)) (zip ed es)) all_lambda))
         else if switch_style = PyStr ''deep_on'' then
           (let ed = map (\<lambda>x. x / lam_idx) this_ed
            in Inr (map (\<lambda>ll. map (\<lambda>d. d * ll) ed) all_lambda))
         else if switch_style = PyStr ''spring_off'' then
           (let es = map (\<lambda>x. x / (1 - lam_idx)) this_es
            in Inr (map (\<lambda>ll. map (\<lambda>s. s * (1 - ll)) es) all_lambda))
         else Inl (RuntimeError ''unknown switch_style''))"

text \<open>
  The loop over the tasks (lines 816-847): \<open>ukn\<close> grows by columns, \<open>nk\<close> records the
  number of retained samples of every task.
\<close>

fun mbar_loop ::
  "real \<Rightarrow> int \<Rightarrow> real list \<Rightarrow> task_output list \<Rightarrow> real list list \<Rightarrow> nat list \<Rightarrow>
     (real list list \<times> nat list) result" where
  "mbar_loop kt_in_ev skip all_lambda [] ukn nk = Inr (ukn, nk)"
| "mbar_loop kt_in_ev skip all_lambda (t # ts) ukn nk =
     (case column (log_lammps t) 9 of Inl e \<Rightarrow> Inl e | Inr c9 \<Rightarrow>
      (case column (log_lammps t) 8 of Inl e \<Rightarrow> Inl e | Inr c8 \<Rightarrow>
      (case mbar_block kt_in_ev skip all_lambda (lambda_out t) c9 c8 of Inl e \<Rightarrow> Inl e
       | Inr block_u \<Rightarrow>
         mbar_loop kt_in_ev skip all_lambda ts
           (if sum_list (map length ukn) = 0 then block_u else map (\<lambda>(a, b). a @ b) (zip ukn block_u))
           (nk @ [length (slice_from skip c9)]))))"

text \<open>
  The read-out of the solver's matrices (lines 852-856): the result is
  \<^verbatim>\<open>(diff_e, err)\<close> for the pair of the first and the last state.
\<close>

definition mbar_readout ::
  "real \<Rightarrow> nat \<Rightarrow> real list list \<Rightarrow> real list list \<Rightarrow> (real \<times> real) result" where
  "mbar_readout kt_in_ev natoms Deltaf_ij dDeltaf_ij =
     (case getitem (map (map (\<lambda>x. x / real natoms)) Deltaf_ij) 0 of Inl e \<Rightarrow> Inl e | Inr row \<Rightarrow>
      (case getitem row (- 1) of Inl e \<Rightarrow> Inl e | Inr f \<Rightarrow>
      (case getitem (map (map (\<lambda>x. x / sqrt (real natoms))) dDeltaf_ij) 0 of Inl e \<Rightarrow> Inl e
       | Inr drow \<Rightarrow>
      (case getitem drow (- 1) of Inl e \<Rightarrow> Inl e | Inr df \<Rightarrow>
         Inr (f * kt_in_ev, df * kt_in_ev)))))"

text \<open>
  \<^verbatim>\<open>_post_tasks_mbar\<close>. It enters the stage directory before it looks for the
  configuration file (line 794): for a directory that is not there \<^verbatim>\<open>os.chdir\<close> raises
  \<^verbatim>\<open>FileNotFoundError\<close>.
\<close>

definition p_post_tasks_mbar ::
  "collab \<Rightarrow> (string \<Rightarrow> stage option) \<Rightarrow> string \<Rightarrow> post_config \<Rightarrow> nat option \<Rightarrow>
     string \<Rightarrow> string \<Rightarrow> stage_result result" where
  "p_post_tasks_mbar X stages iter_name jdata natoms switch step =
     (case stages iter_name of None \<Rightarrow> Inl (FileNotFoundError iter_name) | Some st \<Rightarrow>
      (let n = (case natoms of None \<Rightarrow> conf_natoms st | Some k \<Rightarrow> k);
           all_lambda = map lambda_out (all_tasks st);
           kt_in_ev = Boltzmann X * temp jdata / electron_volt X
       in case mbar_loop kt_in_ev (stat_skip jdata) all_lambda (all_tasks st) [] [] of
            Inl e \<Rightarrow> Inl e
          | Inr (ukn, nk) \<Rightarrow>
          (case mbar_free_energy_differences X ukn nk of Inl e \<Rightarrow> Inl e
           | Inr (Deltaf_ij, dDeltaf_ij) \<Rightarrow>
          (case mbar_readout kt_in_ev n Deltaf_ij dDeltaf_ij of Inl e \<Rightarrow> Inl e
           | Inr (diff_e, err) \<Rightarrow>
          (case getitem (all_tasks st) (- 1) of Inl e \<Rightarrow> Inl e | Inr t \<Rightarrow>
          (case p_compute_thermo X (log_lammps t) n (stat_skip jdata) (stat_bsize jdata) of
             Inl e \<Rightarrow> Inl e
           | Inr info \<Rightarrow> Inr (diff_e, (err, 0), info)))))))"

subsection \<open>Composition of the stages (\<^verbatim>\<open>post_tasks\<close>)\<close>

text \<open>
  The choice of the estimator, written out in the source before every stage
  (\<^verbatim>\<open>if method == 'inte' ... elif method == 'mbar' ... else raise\<close>).
\<close>

definition stage_estimate ::
  "collab \<Rightarrow> (string \<Rightarrow> stage option) \<Rightarrow> string \<Rightarrow> post_config \<Rightarrow> nat option \<Rightarrow>
     string \<Rightarrow> string \<Rightarrow> string \<Rightarrow> string \<Rightarrow> stage_result result" where
  "stage_estimate X stages subtask_name jdata natoms method scheme switch step =
     (if method = ''inte'' then p_post_tasks X stages subtask_name jdata natoms scheme switch step
      else if method = ''mbar'' then p_post_tasks_mbar X stages subtask_name jdata natoms switch step
      else Inl (RuntimeError ''unknow method for integration''))"

definition post_tasks ::
  "collab \<Rightarrow> (string \<Rightarrow> stage option) \<Rightarrow> string \<Rightarrow> post_config \<Rightarrow> nat option \<Rightarrow>
     string \<Rightarrow> string \<Rightarrow> stage_result result" where
  "post_tasks X stages iter_name jdata natoms method scheme =
     (let switch0 = ''one-step'';
          switch1 = (if stages (path_join iter_name ''00.deep_on'') \<noteq> None then ''two-step''
                     else switch0);
          switch = (if stages (path_join iter_name ''00.lj_on'') \<noteq> None then ''three-step''
                    else switch1)
      in
      if switch = ''two-step'' then
        (case stage_estimate X stages (path_join iter_name ''00.deep_on'') jdata natoms method
                scheme switch ''deep_on'' of Inl e \<Rightarrow> Inl e | Inr (e0, err0, tinfo0) \<Rightarrow>
        (case stage_estimate X stages (path_join iter_name ''01.spring_off'') jdata natoms method
                scheme switch ''spring_off'' of Inl e \<Rightarrow> Inl e | Inr (e1, err1, tinfo1) \<Rightarrow>
           Inr (e0 + e1,
                (sqrt ((fst err0)\<^sup>2 + (fst err1)\<^sup>2), snd err0 + snd err1),
                tinfo1)))
      else if switch = ''three-step'' then
        (case stage_estimate X stages (path_join iter_name ''00.lj_on'') jdata natoms method
                scheme switch ''lj_on'' of Inl e \<Rightarrow> Inl e | Inr (e0, err0, tinfo0) \<Rightarrow>
        (case stage_estimate X stages (path_join iter_name ''01.deep_on'') jdata natoms method
                scheme switch ''deep_on'' of Inl e \<Rightarrow> Inl e | Inr (e1, err1, tinfo1) \<Rightarrow>
        (case stage_estimate X stages (path_join iter_name ''02.spring_off'') jdata natoms method
                scheme switch ''spring_off'' of Inl e \<Rightarrow> Inl e | Inr (e2, err2, tinfo2) \<Rightarrow>
           Inr (e0 + e1 + e2,
                (sqrt ((fst err0)\<^sup>2 + (fst err1)\<^sup>2 + (fst err2)\<^sup>2),
                 snd err0 + snd err1 + snd err2),
                tinfo2))))
      else
        (if method = ''inte'' then
           p_post_tasks X stages iter_name jdata natoms scheme ''one-step'' ''both''
         else if method = ''mbar'' then
           p_post_tasks_mbar X stages iter_name jdata natoms ''one-step'' ''both''
         else Inl (UnboundLocalError ''de'')))"

subsection \<open>Configuration and the schedule of a stage (\<^verbatim>\<open>_make_tasks\<close>, lines 395-416)\<close>

text \<open>
  A JSON value of the configuration, as far as the code reads it: a number, a string, a
  list of numbers, a list of integers, or anything else. \<open>jdata\<close> is the dictionary.
\<close>

datatype jval = JNum real | JStr string | JNums "real list" | JInts "int list" | JOther

type_synonym jdata = "string \<Rightarrow> jval option"

text \<open>\<^verbatim>\<open>jdata[key]\<close>.\<close>

definition lookup :: "jdata \<Rightarrow> string \<Rightarrow> jval result" where
  "lookup jd k = (case jd k of None \<Rightarrow> Inl (KeyError k) | Some v \<Rightarrow> Inr v)"

text \<open>
  The guard of the end points (lines 413-416), on the list \<^verbatim>\<open>parse_seq\<close> returned:
  \<^verbatim>\<open>all_lambda[0] += protect_eps\<close> when the first value is 0, then
  \<^verbatim>\<open>all_lambda[-1] -= protect_eps\<close> when the last value (of the list as it is by then) is 1.
  \<open>protect_eps\<close> is the value found in the configuration; it is used as a number only when
  a replacement happens.
\<close>

definition protect_ends :: "jval \<Rightarrow> real list \<Rightarrow> real list result" where
  "protect_ends protect_eps all_lambda =
     (case getitem all_lambda 0 of Inl e \<Rightarrow> Inl e | Inr first \<Rightarrow>
      (case (if first = 0 then
               (case protect_eps of JNum eps \<Rightarrow> Inr (all_lambda[0 := first + eps])
                | _ \<Rightarrow> Inl TypeError)
             else Inr all_lambda) of Inl e \<Rightarrow> Inl e | Inr l1 \<Rightarrow>
      (case getitem l1 (- 1) of Inl e \<Rightarrow> Inl e | Inr final \<Rightarrow>
       if final = 1 then
         (case protect_eps of JNum eps \<Rightarrow> Inr (l1[length l1 - 1 := final - eps])
          | _ \<Rightarrow> Inl TypeError)
       else Inr l1)))"

subsection \<open>The refined schedule (\<^verbatim>\<open>refine_task\<close>, lines 535-545)\<close>

text \<open>
  The inner loop: the points \<^verbatim>\<open>all_t[ii] + jj * hh\<close> for \<^verbatim>\<open>jj in range(1, interval_nrefine[ii])\<close>.
\<close>

definition inserted_points :: "real \<Rightarrow> real \<Rightarrow> int \<Rightarrow> real list" where
  "inserted_points t hh m = map (\<lambda>jj. t + real jj * hh) [1 ..< nat m]"

text \<open>
  The outer loop from index \<open>ii\<close> on, with \<open>k\<close> iterations left: every iteration appends
  the original point with its own index, then the inserted points with the sentinel
  \<open>-1\<close>. An index outside \<^verbatim>\<open>all_t\<close> or \<^verbatim>\<open>interval_nrefine\<close> raises \<^verbatim>\<open>IndexError\<close>.
\<close>

fun refine_loop ::
  "real list \<Rightarrow> int list \<Rightarrow> nat \<Rightarrow> nat \<Rightarrow> (real list \<times> int list) result" where
  "refine_loop all_t interval_nrefine ii 0 = Inr ([], [])"
| "refine_loop all_t interval_nrefine ii (Suc k) =
     (case getitem all_t (int ii) of Inl e \<Rightarrow> Inl e | Inr t \<Rightarrow>
      (case getitem all_t (int ii + 1) of Inl e \<Rightarrow> Inl e | Inr t1 \<Rightarrow>
      (case getitem interval_nrefine (int ii) of Inl e \<Rightarrow> Inl e | Inr m \<Rightarrow>
      (case refine_loop all_t interval_nrefine (Suc ii) k of Inl e \<Rightarrow> Inl e
       | Inr (ts, bs) \<Rightarrow>
         (let hh = (t1 - t) / real_of_int m
          in Inr (t # inserted_points t hh m @ ts,
                  int ii # replicate (length (inserted_points t hh m)) (- 1) @ bs))))))"

text \<open>
  The whole construction: \<^verbatim>\<open>range(0, ntask-1)\<close>, then the last point with the index
  \<^verbatim>\<open>ntask-1\<close>. The result is \<^verbatim>\<open>(refined_t, back_map)\<close>.
\<close>

definition refine_schedule :: "real list \<Rightarrow> int list \<Rightarrow> (real list \<times> int list) result" where
  "refine_schedule all_t interval_nrefine =
     (let ntask = length all_t in
      case refine_loop all_t interval_nrefine 0 (ntask - 1) of Inl e \<Rightarrow> Inl e
      | Inr (ts, bs) \<Rightarrow>
      (case getitem all_t (- 1) of Inl e \<Rightarrow> Inl e | Inr final \<Rightarrow>
         Inr (ts @ [final], bs @ [int ntask - 1])))"

subsection \<open>Files\<close>

text \<open>
  The file system as far as task generation and refinement touch it: a finite table from
  absolute paths to directories, symbolic links and files. A file holds a numeric table
  (\<^verbatim>\<open>hti.out\<close>, \<^verbatim>\<open>data\<close>, \<^verbatim>\<open>log.lammps\<close>), a JSON dictionary (\<^verbatim>\<open>in.json\<close>), a number
  (\<^verbatim>\<open>lambda.out\<close>) or text.
\<close>

datatype fdata = Table "real list list" | Json jdata | Number real | Text string

datatype content = Dir | Link string | File fdata

type_synonym fs = "(string \<times> content) list"

definition fs_put :: "fs \<Rightarrow> string \<Rightarrow> content \<Rightarrow> fs" where
  "fs_put fs p c = (p, c) # filter (\<lambda>e. fst e \<noteq> p) fs"

text \<open>Following symbolic links, at most 40 of them as the kernel does.\<close>

fun resolve :: "nat \<Rightarrow> fs \<Rightarrow> string \<Rightarrow> content option" where
  "resolve 0 fs p = None"
| "resolve (Suc k) fs p =
     (case map_of fs p of Some (Link t) \<Rightarrow> resolve k fs t | r \<Rightarrow> r)"

definition isfile :: "fs \<Rightarrow> string \<Rightarrow> bool" where
  "isfile fs p = (case resolve 40 fs p of Some (File d) \<Rightarrow> True | _ \<Rightarrow> False)"

definition read_file :: "fs \<Rightarrow> string \<Rightarrow> fdata result" where
  "read_file fs p =
     (case resolve 40 fs p of Some (File d) \<Rightarrow> Inr d
      | Some _ \<Rightarrow> Inl (OSError p) | None \<Rightarrow> Inl (FileNotFoundError p))"

text \<open>\<^verbatim>\<open>os.path.abspath\<close> on a path without \<^verbatim>\<open>.\<close> and \<^verbatim>\<open>..\<close> components.\<close>

definition abspath :: "string \<Rightarrow> string \<Rightarrow> string" where
  "abspath cwd p = path_join cwd p"

text \<open>
  A computation on the file system returns a value or an error, and the file system as it
  is then.
\<close>

type_synonym 'a io = "fs \<Rightarrow> 'a result \<times> fs"

definition io_bind :: "'a io \<Rightarrow> ('a \<Rightarrow> 'b io) \<Rightarrow> 'b io" where
  "io_bind m f fs = (case m fs of (Inl e, fs') \<Rightarrow> (Inl e, fs') | (Inr v, fs') \<Rightarrow> f v fs')"

definition io_lift :: "'a result \<Rightarrow> 'a io" where
  "io_lift r fs = (r, fs)"

definition io_read :: "(fs \<Rightarrow> 'a result) \<Rightarrow> 'a io" where
  "io_read f fs = (f fs, fs)"

definition write_file :: "string \<Rightarrow> content \<Rightarrow> unit io" where
  "write_file p c fs = (Inr (), fs_put fs p c)"

text \<open>\<^verbatim>\<open>shutil.copyfile(src, dst)\<close>.\<close>

definition copyfile :: "string \<Rightarrow> string \<Rightarrow> unit io" where
  "copyfile src dst fs =
     (if src = dst then (Inl (OSError src), fs)
      else case read_file fs src of Inl e \<Rightarrow> (Inl e, fs)
           | Inr d \<Rightarrow> (Inr (), fs_put fs dst (File d)))"

text \<open>
  \<^verbatim>\<open>sorted(glob.glob(os.path.join(dir, 'task.[0-9]*')))\<close>: the entries directly in \<open>dir\<close>
  whose name is \<^verbatim>\<open>task.\<close>, a digit, and anything without a slash.
\<close>

definition is_task_name :: "string \<Rightarrow> bool" where
  "is_task_name n =
     (take 5 n = ''task.'' \<and> 5 < length n \<and> n ! 5 \<in> set ''0123456789'' \<and> CHR ''/'' \<notin> set n)"

definition glob_tasks :: "fs \<Rightarrow> string \<Rightarrow> string list" where
  "glob_tasks fs dir =
     sort (remdups (filter
       (\<lambda>p. take (length dir + 1) p = dir @ ''/'' \<and> is_task_name (drop (length dir + 1) p))
       (map fst fs)))"

text \<open>\<^verbatim>\<open>'%06d' % idx\<close>.\<close>

fun digits :: "nat \<Rightarrow> string" where
  "digits n =
     (if n < 10 then [char_of (48 + n)] else digits (n div 10) @ [char_of (48 + n mod 10)])"

declare digits.simps [simp del]

definition fmt06 :: "nat \<Rightarrow> string" where
  "fmt06 n = replicate (6 - length (digits n)) (CHR ''0'') @ digits n"

subsection \<open>Collaborators of task generation\<close>

text \<open>
  \<^verbatim>\<open>parse_seq\<close>, \<^verbatim>\<open>create_path\<close> and \<^verbatim>\<open>get_task_file_abspath\<close> come from \<^verbatim>\<open>lib.utils\<close>, which is
  not part of the sources. \<open>lammps_text\<close> stands for the text \<^verbatim>\<open>_gen_lammps_input\<close> and
  \<^verbatim>\<open>_gen_lammps_input_ideal\<close> produce (or the error they raise) from the reference, the
  configuration, the task index, the lambda, the switch and the step: it is formatted
  floating-point numbers and random seeds, and no property here depends on it.
\<close>

record io_collab =
  parse_seq :: "jval \<Rightarrow> real list result"
  create_path :: "string \<Rightarrow> unit io"
  get_task_file_abspath :: "string \<Rightarrow> string \<Rightarrow> string result"
  lammps_text :: "string \<Rightarrow> jdata \<Rightarrow> nat \<Rightarrow> real \<Rightarrow> string \<Rightarrow> string \<Rightarrow> string result"

subsection \<open>Task generation (\<^verbatim>\<open>make_tasks\<close>, \<^verbatim>\<open>_make_tasks\<close>)\<close>

definition lookup_str :: "jdata \<Rightarrow> string \<Rightarrow> string result" where
  "lookup_str jd k =
     (case lookup jd k of Inl e \<Rightarrow> Inl e | Inr (JStr s) \<Rightarrow> Inr s | Inr _ \<Rightarrow> Inl TypeError)"

text \<open>The first of the keys that the dictionary lacks raises \<^verbatim>\<open>KeyError\<close>.\<close>

fun require_keys :: "jdata \<Rightarrow> string list \<Rightarrow> unit result" where
  "require_keys jd [] = Inr ()"
| "require_keys jd (k # ks) =
     (case lookup jd k of Inl e \<Rightarrow> Inl e | Inr v \<Rightarrow> require_keys jd ks)"

text \<open>The choice of the schedule by switch and step (lines 401-411).\<close>

definition stage_lambda :: "io_collab \<Rightarrow> jdata \<Rightarrow> string \<Rightarrow> string \<Rightarrow> real list result" where
  "stage_lambda Y jdata switch step =
     (if switch = ''one-step'' then
        (case lookup jdata ''lambda'' of Inl e \<Rightarrow> Inl e | Inr v \<Rightarrow> parse_seq Y v)
      else if switch = ''two-step'' \<or> switch = ''three-step'' then
        (if step = ''deep_on'' then
           (case lookup jdata ''lambda_deep_on'' of Inl e \<Rightarrow> Inl e | Inr v \<Rightarrow> parse_seq Y v)
         else if step = ''spring_off'' then
           (case lookup jdata ''lambda_spring_off'' of Inl e \<Rightarrow> Inl e | Inr v \<Rightarrow> parse_seq Y v)
         else if step = ''lj_on'' then
           (case lookup jdata ''lambda_lj_on'' of Inl e \<Rightarrow> Inl e | Inr v \<Rightarrow> parse_seq Y v)
         else Inl (RuntimeError ''unknown step''))
      else Inl (UnboundLocalError ''all_lambda''))"

text \<open>
  What \<^verbatim>\<open>_make_tasks\<close> computes before it touches a file (lines 395-439): the guarded
  schedule, the configuration with \<^verbatim>\<open>crystal\<close>, \<^verbatim>\<open>reference\<close>, \<^verbatim>\<open>switch\<close> and \<^verbatim>\<open>step\<close>
  set, and the paths of the configuration file and of the model.
\<close>

definition stage_setup ::
  "io_collab \<Rightarrow> jdata \<Rightarrow> jval \<Rightarrow> string \<Rightarrow> string \<Rightarrow>
     (real list \<times> jdata \<times> string \<times> string) result" where
  "stage_setup Y jdata ref switch step =
     (let jd1 = (if jdata ''crystal'' = None then jdata(''crystal'' \<mapsto> JStr ''vega'') else jdata) in
      case lookup jd1 ''protect_eps'' of Inl e \<Rightarrow> Inl e | Inr protect_eps \<Rightarrow>
      (case stage_lambda Y jd1 switch step of Inl e \<Rightarrow> Inl e | Inr all_lambda0 \<Rightarrow>
      (case protect_ends protect_eps all_lambda0 of Inl e \<Rightarrow> Inl e | Inr all_lambda \<Rightarrow>
      (case lookup_str jd1 ''equi_conf'' of Inl e \<Rightarrow> Inl e | Inr equi_conf \<Rightarrow>
      (case lookup_str jd1 ''model'' of Inl e \<Rightarrow> Inl e | Inr model \<Rightarrow>
      (case require_keys jd1 [''model_mass_map'', ''nsteps'', ''dt'', ''spring_k'',
              ''stat_freq'', ''temp''] of Inl e \<Rightarrow> Inl e
       | Inr u \<Rightarrow>
         Inr (all_lambda,
              jd1(''reference'' \<mapsto> ref, ''switch'' \<mapsto> JStr switch, ''step'' \<mapsto> JStr step),
              equi_conf, model)))))))"

text \<open>
  \<^verbatim>\<open>shutil.copyfile\<close> or \<^verbatim>\<open>os.symlink\<close> of a source into the stage directory (lines 443-458).
\<close>

definition place :: "bool \<Rightarrow> string \<Rightarrow> string \<Rightarrow> unit io" where
  "place link src dst = (if link then write_file dst (Link src) else copyfile src dst)"

text \<open>The loop over the schedule (lines 468-515), on the pairs \<^verbatim>\<open>enumerate(all_lambda)\<close>.\<close>

fun task_loop ::
  "io_collab \<Rightarrow> string \<Rightarrow> jdata \<Rightarrow> jval \<Rightarrow> string \<Rightarrow> string \<Rightarrow> (nat \<times> real) list \<Rightarrow> unit io" where
  "task_loop Y iter_name jdata ref switch step [] = io_lift (Inr ())"
| "task_loop Y iter_name jdata ref switch step ((idx, ii) # rest) =
     (let work_path = path_join iter_name (''task.'' @ fmt06 idx) in
      io_bind (create_path Y work_path) (\<lambda>u.
      io_bind (write_file (path_join work_path ''conf.lmp'') (Link (path_join iter_name ''conf.lmp''))) (\<lambda>u.
      io_bind (write_file (path_join work_path ''graph.pb'') (Link (path_join iter_name ''graph.pb''))) (\<lambda>u.
      io_bind (io_lift
         (if ref = JStr ''einstein'' then lammps_text Y ''einstein'' jdata idx ii switch step
          else if ref = JStr ''ideal'' then lammps_text Y ''ideal'' jdata idx ii switch step
          else Inl (RuntimeError ''unknow reference system type''))) (\<lambda>lmp_str.
      io_bind (write_file (path_join work_path ''in.lammps'') (File (Text lmp_str))) (\<lambda>u.
      io_bind (write_file (path_join work_path ''lambda.out'') (File (Number ii))) (\<lambda>u.
        task_loop Y iter_name jdata ref switch step rest)))))))"

text \<open>
  \<^verbatim>\<open>_make_tasks\<close>. \<open>cwd\<close> is the working directory; the result is the configuration as the
  call leaves it (the caller's dictionary is changed in place).
\<close>

definition p_make_tasks ::
  "io_collab \<Rightarrow> string \<Rightarrow> string \<Rightarrow> jdata \<Rightarrow> jval \<Rightarrow> string \<Rightarrow> string \<Rightarrow> bool \<Rightarrow> jdata io" where
  "p_make_tasks Y cwd iter_name jdata ref switch step link =
     io_bind (io_lift (stage_setup Y jdata ref switch step)) (\<lambda>(all_lambda, jd2, equi_conf, model).
     (let dir = abspath cwd iter_name;
          jd4 = jd2(''equi_conf'' \<mapsto> JStr ''conf.lmp'', ''model'' \<mapsto> JStr ''graph.pb'')
      in
      io_bind (create_path Y dir) (\<lambda>u.
      io_bind (place link (abspath cwd equi_conf) (path_join dir ''conf.lmp'')) (\<lambda>u.
      io_bind (place link (abspath cwd model) (path_join dir ''graph.pb'')) (\<lambda>u.
      io_bind (write_file (path_join dir ''in.json'') (File (Json jd4))) (\<lambda>u.
      io_bind (task_loop Y dir jd4 ref switch step (enumerate 0 all_lambda)) (\<lambda>u.
        io_lift (Inr jd4))))))))"

text \<open>\<^verbatim>\<open>make_tasks\<close> (lines 356-391).\<close>

definition make_tasks :: "io_collab \<Rightarrow> string \<Rightarrow> string \<Rightarrow> jdata \<Rightarrow> jval \<Rightarrow> string \<Rightarrow> jdata io" where
  "make_tasks Y cwd iter_name jdata ref switch =
     io_bind (io_lift (lookup_str jdata ''equi_conf'')) (\<lambda>equi_conf.
     io_bind (io_lift (lookup_str jdata ''model'')) (\<lambda>model.
       if switch = ''one-step'' then
         p_make_tasks Y cwd iter_name jdata ref ''one-step'' ''both'' False
       else if switch = ''two-step'' \<or> switch = ''three-step'' then
         (let dir = abspath cwd iter_name;
              jd2 = jdata(''equi_conf'' \<mapsto> JStr ''conf.lmp'', ''model'' \<mapsto> JStr ''graph.pb'')
          in
          io_bind (create_path Y dir) (\<lambda>u.
          io_bind (copyfile (abspath cwd equi_conf) (path_join dir ''conf.lmp'')) (\<lambda>u.
          io_bind (copyfile (abspath cwd model) (path_join dir ''graph.pb'')) (\<lambda>u.
          io_bind (write_file (path_join dir ''in.json'') (File (Json jd2))) (\<lambda>u.
            if switch = ''two-step'' then
              io_bind (p_make_tasks Y dir ''00.deep_on'' jd2 ref switch ''deep_on'' True) (\<lambda>jd3.
                p_make_tasks Y dir ''01.spring_off'' jd3 ref switch ''spring_off'' True)
            else
              io_bind (p_make_tasks Y dir ''00.lj_on'' jd2 ref switch ''lj_on'' True) (\<lambda>jd3.
              io_bind (p_make_tasks Y dir ''01.deep_on'' jd3 ref switch ''deep_on'' True) (\<lambda>jd5.
                p_make_tasks Y dir ''02.spring_off'' jd5 ref switch ''spring_off'' True)))))))
       else io_lift (Inl (RuntimeError ''unknow switch''))))"

subsection \<open>Refinement (\<^verbatim>\<open>refine_task\<close>)\<close>

text \<open>
  \<^verbatim>\<open>np.loadtxt\<close> and a column of its result. A table of fewer than two rows, or of fewer than
  two columns, is loaded as a one-dimensional array, on which \<^verbatim>\<open>[:, k]\<close> raises.
\<close>

definition loadtxt :: "fs \<Rightarrow> string \<Rightarrow> real list list result" where
  "loadtxt fs p =
     (case read_file fs p of Inl e \<Rightarrow> Inl e | Inr (Table rows) \<Rightarrow> Inr rows
      | Inr _ \<Rightarrow> Inl ValueError)"

definition loaded_column :: "real list list \<Rightarrow> nat \<Rightarrow> real list result" where
  "loaded_column rows k =
     (if length rows < 2 \<or> length (hd rows) < 2 then Inl IndexError else column rows k)"

definition json_load :: "fs \<Rightarrow> string \<Rightarrow> jdata result" where
  "json_load fs p =
     (case read_file fs p of Inl e \<Rightarrow> Inl e | Inr (Json jd) \<Rightarrow> Inr jd
      | Inr _ \<Rightarrow> Inl ValueError)"

text \<open>
  The copy of the reused output (lines 568-577), over the indices \<open>ii\<close> of
  \<^verbatim>\<open>range(len(to_task_list))\<close>.
\<close>

fun copy_back :: "string list \<Rightarrow> string list \<Rightarrow> int list \<Rightarrow> nat list \<Rightarrow> unit io" where
  "copy_back from_task_list to_task_list back_map [] = io_lift (Inr ())"
| "copy_back from_task_list to_task_list back_map (ii # rest) =
     io_bind (io_lift (getitem back_map (int ii))) (\<lambda>b.
       if b < 0 then copy_back from_task_list to_task_list back_map rest
       else
         io_bind (io_lift (getitem from_task_list b)) (\<lambda>src.
         io_bind (copyfile (path_join src ''data'') (path_join (to_task_list ! ii) ''data'')) (\<lambda>u.
         io_bind (copyfile (path_join src ''log.lammps'')
                    (path_join (to_task_list ! ii) ''log.lammps'')) (\<lambda>u.
         io_bind (write_file (path_join (to_task_list ! ii) ''from.dir'') (File (Text src))) (\<lambda>u.
           copy_back from_task_list to_task_list back_map rest)))))"

text \<open>
  What \<^verbatim>\<open>refine_task\<close> reads and computes before it generates anything (lines 525-557),
  once \<^verbatim>\<open>hti.out\<close> is known to be there: \<^verbatim>\<open>None\<close> when \<^verbatim>\<open>print_ref\<close> ends the call,
  otherwise the refined schedule, the back-map, the new configuration and its reference.
\<close>

definition refine_plan ::
  "collab \<Rightarrow> io_collab \<Rightarrow> string \<Rightarrow> real \<Rightarrow> bool \<Rightarrow> fs \<Rightarrow>
     (nat \<times> real list \<times> int list \<times> jdata \<times> jval) option result" where
  "refine_plan X Y from_task err print_ref fs =
     (case loadtxt fs (path_join from_task ''hti.out'') of Inl e \<Rightarrow> Inl e | Inr tmp_array \<Rightarrow>
      (case loaded_column tmp_array 0 of Inl e \<Rightarrow> Inl e | Inr all_t \<Rightarrow>
      (case loaded_column tmp_array 1 of Inl e \<Rightarrow> Inl e | Inr integrand \<Rightarrow>
      (case compute_nrefine X all_t integrand err of Inl e \<Rightarrow> Inl e | Inr interval_nrefine \<Rightarrow>
       if print_ref then Inr None
       else
      (case refine_schedule all_t interval_nrefine of Inl e \<Rightarrow> Inl e
       | Inr (refined_t, back_map) \<Rightarrow>
      (case json_load fs (path_join from_task ''in.json'') of Inl e \<Rightarrow> Inl e
       | Inr from_jdata \<Rightarrow>
      (let jd1 = from_jdata(''lambda'' \<mapsto> JNums refined_t, ''orig_task'' \<mapsto> JStr from_task,
                   ''back_map'' \<mapsto> JInts back_map, ''refine_error'' \<mapsto> JNum err)
       in
       case lookup_str jd1 ''equi_conf'' of Inl e \<Rightarrow> Inl e | Inr equi_conf \<Rightarrow>
      (case get_task_file_abspath Y from_task equi_conf of Inl e \<Rightarrow> Inl e | Inr equi_abs \<Rightarrow>
      (let jd2 = jd1(''equi_conf'' \<mapsto> JStr equi_abs) in
       case lookup_str jd2 ''model'' of Inl e \<Rightarrow> Inl e | Inr model \<Rightarrow>
      (case get_task_file_abspath Y from_task model of Inl e \<Rightarrow> Inl e | Inr model_abs \<Rightarrow>
      (let to_jdata = jd2(''model'' \<mapsto> JStr model_abs) in
       case lookup to_jdata ''reference'' of Inl e \<Rightarrow> Inl e
       | Inr ref \<Rightarrow> Inr (Some (length all_t, refined_t, back_map, to_jdata, ref)))))))))))))"

text \<open>\<^verbatim>\<open>refine_task\<close> (lines 518-577).\<close>

definition refine_task ::
  "collab \<Rightarrow> io_collab \<Rightarrow> string \<Rightarrow> string \<Rightarrow> string \<Rightarrow> real \<Rightarrow> bool \<Rightarrow> unit io" where
  "refine_task X Y cwd from_task0 to_task0 err print_ref fs =
     (let from_task = abspath cwd from_task0; to_task = abspath cwd to_task0 in
      if \<not> isfile fs (path_join from_task ''hti.out'') then
        (Inl (RuntimeError (''cannot find file '' @ path_join from_task ''hti.out'' @
                 '', task should be computed befor refined'')), fs)
      else
        io_bind (io_read (refine_plan X Y from_task err print_ref)) (\<lambda>plan.
          case plan of None \<Rightarrow> io_lift (Inr ())
          | Some (ntask, refined_t, back_map, to_jdata, ref) \<Rightarrow>
            io_bind (make_tasks Y cwd to_task to_jdata ref ''one-step'') (\<lambda>jd.
            io_bind (io_read (\<lambda>fs1. Inr (glob_tasks fs1 from_task, glob_tasks fs1 to_task)))
              (\<lambda>(from_task_list, to_task_list).
                if length from_task_list \<noteq> ntask then io_lift (Inl AssertionError)
                else if length to_task_list \<noteq> length refined_t then io_lift (Inl AssertionError)
                else copy_back from_task_list to_task_list back_map [0 ..< length to_task_list])))
          fs)"

subsection \<open>Frame conditions\<close>

text \<open>\<open>inside_dir p q\<close>: the path \<open>q\<close> is the directory \<open>p\<close> or lies below it.\<close>

definition inside_dir :: "string \<Rightarrow> string \<Rightarrow> bool" where
  "inside_dir p q = (q = p \<or> prefix (p @ ''/'') q)"

text \<open>A computation changes the file system at most at the paths that satisfy \<open>P\<close>.\<close>

definition only_changes :: "(string \<Rightarrow> bool) \<Rightarrow> 'a io \<Rightarrow> bool" where
  "only_changes P m =
     (\<forall>fs r fs'. m fs = (r, fs') \<longrightarrow> (\<forall>q. \<not> P q \<longrightarrow> map_of fs' q = map_of fs q))"



subsection \<open>Concrete inputs\<close>

text \<open>One reduced task at \<open>\<lambda> = 1/2\<close> with deep-energy term 1 and error 1.\<close>

definition half_task :: reduced where
  "half_task = \<lparr> r_lambda = 1 / 2, r_es = 0, r_ed = 1, r_es_err = 0, r_ed_err = 1 \<rparr>"

text \<open>
  Collaborators for concrete runs. \<open>block_avg\<close> reads the mean from the first entry of the
  column and the error from the second. The integration stub returns, for scheme \<open>s\<close>, a
  cumulative result that stops at the second-to-last lambda; for scheme \<open>t\<close>, the
  trapezoid between the first and the last point it is given, with the width of that
  interval as systematic error and the sum of the two errors as statistical error; for scheme \<open>p\<close>, the integrand itself with systematic error \<open>\<lambda>/100\<close> and the
  statistical errors it was given; for any other scheme, one that ends at half the first
  lambda.
\<close>

definition demo_collab :: collab where
  "demo_collab =
     \<lparr> block_avg = (\<lambda>c skip bsize. Inr (c ! 0, c ! 1)),
       integrate_range = (\<lambda>l d e s.
          if s = ''t'' then
            Inr (l, [0, (last l - hd l) * (hd d + last d) / 2], [0, last l - hd l],
                 [0, hd e + last e])
          else if s = ''s'' then Inr (butlast l, [0, 10], [0, 20], [0, 3])
          else if s = ''p'' then Inr (l, d, map (\<lambda>x. x / 100) l, e)
          else Inr ([hd l / 2], [0], [0], [0])),
       compute_nrefine = (\<lambda>t i err. Inr (map (\<lambda>x. 2) (tl t))),
       mbar_free_energy_differences = (\<lambda>u n. Inr ([[0, 8]], [[0, 2]])),
       electron_volt = 1, Boltzmann = 1 \<rparr>"

text \<open>
  A task whose thermo table has two rows: the spring and deep columns (8 and 9) hold the
  value in the first row and its error in the second; all other columns are zero.
\<close>

definition demo_task :: "real \<Rightarrow> real \<Rightarrow> real \<Rightarrow> real \<Rightarrow> real \<Rightarrow> task_output" where
  "demo_task lam es ed es_err ed_err =
     \<lparr> lambda_out = lam,
       log_lammps = [[0, 0, 0, 0, 0, 0, 0, 0, es, ed], [0, 0, 0, 0, 0, 0, 0, 0, es_err, ed_err]] \<rparr>"

definition demo_stage :: "task_output list \<Rightarrow> stage" where
  "demo_stage ts = \<lparr> all_tasks = ts, task_endpnt = None, conf_natoms = 1 \<rparr>"

definition demo_two_step :: "string \<Rightarrow> stage option" where
  "demo_two_step p =
     (if p = ''job/00.deep_on'' then
        Some (demo_stage [demo_task (1 / 10) 0 (1 / 10) 0 (3 / 1000)])
      else if p = ''job/01.spring_off'' then
        Some (demo_stage [demo_task (2 / 10) (8 / 10) 0 (32 / 1000) 0])
      else None)"

definition demo_three_step :: "string \<Rightarrow> stage option" where
  "demo_three_step p =
     (if p = ''job/00.lj_on'' then
        Some (demo_stage [demo_task (1 / 10) 0 1 0 (3 / 100)])
      else if p = ''job/01.deep_on'' then
        Some (demo_stage [demo_task (2 / 10) 0 1 0 (4 / 100)])
      else if p = ''job/02.spring_off'' then
        Some (demo_stage [demo_task (3 / 10) 0 1 0 0])
      else None)"


definition demo_config :: post_config where
  "demo_config = \<lparr> stat_skip = 0, stat_bsize = 1, temp = 300 \<rparr>"

definition demo_thermo :: thermo_info where
  "demo_thermo =
     \<lparr> th_p = 0, th_p_err = 0, th_v = 0, th_v_err = 0, th_e = 0, th_e_err = 0,
       th_h = 0, th_h_err = 0, th_t = 0, th_t_err = 0, th_pv = 0, th_pv_err = 0 \<rparr>"


text \<open>
  Collaborators of task generation for concrete runs: \<^verbatim>\<open>parse_seq\<close> accepts a list of
  numbers, \<^verbatim>\<open>create_path\<close> enters the directory, \<^verbatim>\<open>get_task_file_abspath\<close> joins the task
  directory and the file name, and the LAMMPS input is the empty text.
\<close>

definition demo_io :: io_collab where
  "demo_io =
     \<lparr> parse_seq = (\<lambda>v. case v of JNums xs \<Rightarrow> Inr xs | _ \<Rightarrow> Inl TypeError),
       create_path = (\<lambda>p. write_file p Dir),
       get_task_file_abspath = (\<lambda>d f. Inr (path_join d f)),
       lammps_text = (\<lambda>r jd idx lam sw st. Inr []) \<rparr>"

text \<open>
  The configuration of a completed \<open>deep_on\<close> stage of a two-step run, and the files of the
  stage in \<^verbatim>\<open>/w/old\<close>: two tasks at \<open>\<lambda> = 0.1\<close> and \<open>\<lambda> = 0.9\<close> with their output, and the
  integrand table \<^verbatim>\<open>hti.out\<close>.
\<close>

definition demo_jdata :: jdata where
  "demo_jdata =
     [''protect_eps'' \<mapsto> JNum (1 / 100), ''equi_conf'' \<mapsto> JStr ''conf.lmp'',
      ''model'' \<mapsto> JStr ''graph.pb'', ''model_mass_map'' \<mapsto> JNums [16, 1],
      ''nsteps'' \<mapsto> JNum 1000, ''dt'' \<mapsto> JNum (1 / 1000), ''spring_k'' \<mapsto> JNum 1,
      ''stat_freq'' \<mapsto> JNum 10, ''temp'' \<mapsto> JNum 300, ''reference'' \<mapsto> JStr ''einstein'',
      ''switch'' \<mapsto> JStr ''two-step'', ''step'' \<mapsto> JStr ''deep_on'',
      ''lambda_deep_on'' \<mapsto> JNums [1 / 10, 9 / 10]]"

definition demo_fs :: fs where
  "demo_fs =
     [(''/w/old/hti.out'',
         File (Table [[1 / 10, 1, 0, 0, 0, 0, 0], [9 / 10, 2, 0, 0, 0, 0, 0]])),
      (''/w/old/in.json'', File (Json demo_jdata)),
      (''/w/old/conf.lmp'', File (Text ''conf'')),
      (''/w/old/graph.pb'', File (Text ''graph'')),
      (''/w/old/task.000000'', Dir),
      (''/w/old/task.000000/data'', File (Table [[1]])),
      (''/w/old/task.000000/log.lammps'', File (Text ''log 0'')),
      (''/w/old/task.000001'', Dir),
      (''/w/old/task.000001/data'', File (Table [[2]])),
      (''/w/old/task.000001/log.lammps'', File (Text ''log 1''))]"


section \<open>Properties\<close>

subsection \<open>The integrand of a deep-on stage\<close>

text \<open>
  C1 (as amended). For a stage of kind \<open>deep_on\<close> the integrand depends on the protocol:
  under the two-step protocol the per-task integrand is \<open>Ed/\<lambda>\<close> with error \<open>Ed_err/\<lambda>\<close>;
  under the three-step protocol it is the raw \<open>Ed\<close> with error \<open>Ed_err\<close> (there the tenth
  thermo column is the energy difference computed by the simulation itself).
\<close>

theorem deep_on_integrand:
  "stage_integrand ''two-step'' ''deep_on'' rs =
     Inr (map (\<lambda>r. r_ed r / r_lambda r) rs, map (\<lambda>r. r_ed_err r / r_lambda r) rs)
   \<and> stage_integrand ''three-step'' ''deep_on'' rs = Inr (map r_ed rs, map r_ed_err rs)"
  by (simp add: stage_integrand_def)

text \<open>
  C1 as stated fails under the three-step protocol: at \<open>\<lambda> = 1/2\<close>, \<open>Ed = 1\<close>, \<open>Ed_err = 1\<close>
  the integrand is 1 and its error 1, while \<open>Ed/\<lambda>\<close> and \<open>Ed_err/\<lambda>\<close> are 2.
\<close>

theorem deep_on_three_step_counterexample:
  "stage_integrand ''three-step'' ''deep_on'' [half_task] = Inr ([1], [1])
   \<and> r_ed half_task / r_lambda half_task = 2
   \<and> r_ed_err half_task / r_lambda half_task = 2"
  by (simp add: stage_integrand_def half_task_def)

subsection \<open>The fix-up of the last interval\<close>

lemma getitem_last: "xs \<noteq> [] \<Longrightarrow> getitem xs (- 1) = Inr (last xs)"
  by (cases xs rule: rev_cases) (auto simp: getitem_def nth_append)

lemma getitem_last2: "2 \<le> length xs \<Longrightarrow> getitem xs (- 2) = Inr (xs ! (length xs - 2))"
  by (auto simp: getitem_def nat_diff_distrib' intro!: arg_cong[where f="nth xs"])

lemma getitem_short: "length xs < 2 \<Longrightarrow> getitem xs (- 2) = Inl IndexError"
  by (auto simp: getitem_def)

lemma sqrt_25: "sqrt 25 = 5"
  by (rule real_sqrt_unique) simp_all

lemma slice_last_two:
  assumes "2 \<le> length xs"
  shows "slice_from (- 2) xs = [xs ! (length xs - 2), last xs]"
proof -
  from assms have "xs \<noteq> []" by auto
  then obtain zs b where 1: "xs = zs @ [b]" by (meson rev_exhaust)
  with assms have "zs \<noteq> []" by auto
  then obtain ys a where 2: "zs = ys @ [a]" by (meson rev_exhaust)
  show ?thesis by (simp add: 1 2 slice_from_def nth_append)
qed

text \<open>
  C3. Let \<^verbatim>\<open>integrate_range\<close> return a cumulative result whose last lambda differs from the
  schedule's last lambda. If it is the schedule's second-to-last lambda, the sub-interval
  made of the last two points of the schedule, with the last two integrand values and the
  last two errors, is integrated with scheme \<open>t\<close> (trapezoidal), and the parts are
  combined: the values add, the statistical errors combine as an L2 norm, the systematic
  errors add. For any other mismatch the estimator raises and returns nothing:
  \<^verbatim>\<open>RuntimeError("lambda does not match!")\<close>, or \<^verbatim>\<open>IndexError\<close> when the schedule has no
  second-to-last point. The integrand and the errors have one entry per lambda, as in
  \<^verbatim>\<open>_post_tasks\<close>.
\<close>

theorem tail_fixup:
  assumes "integrate_range X al de err scheme = Inr (nl, i, ie, se)"
    and "nl \<noteq> []" and "al \<noteq> []" and "last nl \<noteq> last al"
    and "length de = length al" and "length err = length al"
  shows "(2 \<le> length al \<and> last nl = al ! (length al - 2) \<and>
          integrate_range X [al ! (length al - 2), last al] [de ! (length al - 2), last de]
              [err ! (length al - 2), last err] ''t''
            = Inr (u, i1, ie1, se1) \<and>
          i \<noteq> [] \<and> i1 \<noteq> [] \<and> ie \<noteq> [] \<and> ie1 \<noteq> [] \<and> se \<noteq> [] \<and> se1 \<noteq> []
          \<longrightarrow> integrate_stage X scheme al de err =
                Inr (last i + last i1, sqrt ((last se)\<^sup>2 + (last se1)\<^sup>2), last ie + last ie1))
       \<and> (2 \<le> length al \<and> last nl \<noteq> al ! (length al - 2)
          \<longrightarrow> integrate_stage X scheme al de err = Inl (RuntimeError ''lambda does not match!''))
       \<and> (length al < 2 \<longrightarrow> integrate_stage X scheme al de err = Inl IndexError)"
proof -
  have two: "2 \<le> length al \<Longrightarrow>
      slice_from (- 2) al = [al ! (length al - 2), last al]
    \<and> slice_from (- 2) de = [de ! (length al - 2), last de]
    \<and> slice_from (- 2) err = [err ! (length al - 2), last err]"
    using slice_last_two [of al] slice_last_two [of de] slice_last_two [of err] assms(5,6)
    by simp
  show ?thesis
    using assms(1-4) two
    by (auto simp: integrate_stage_def getitem_last getitem_last2 getitem_short linalg_norm_def)
qed

theorem tail_fixup_witness:
  "integrate_stage demo_collab ''s'' [2/10, 5/10, 8/10] [100, 1, 3] [9, 1, 3]
     = Inr (10 + 6/10, 5, 20 + 3/10)
   \<and> integrate_stage demo_collab ''x'' [2/10, 5/10, 8/10] [100, 1, 3] [9, 1, 3]
       = Inl (RuntimeError ''lambda does not match!'')
   \<and> integrate_stage demo_collab ''x'' [2/10] [1] [0] = Inl IndexError"
  using tail_fixup [of demo_collab "[2/10, 5/10, 8/10]" "[100, 1, 3]" "[9, 1, 3]" "''s''"
           "[2/10, 5/10]" "[0, 10]" "[0, 20]" "[0, 3]" "[5/10, 8/10]" "[0, 6/10]" "[0, 3/10]" "[0, 4]"]
        tail_fixup [of demo_collab "[2/10, 5/10, 8/10]" "[100, 1, 3]" "[9, 1, 3]" "''x''"
           "[1/10]" "[0]" "[0]" "[0]"]
        tail_fixup [of demo_collab "[2/10]" "[1]" "[0]" "''x''" "[1/10]" "[0]" "[0]" "[0]"]
  by (simp add: demo_collab_def sqrt_25)

subsection \<open>Composition of the stages\<close>

lemma demo_reduce:
  "reduce_tasks demo_collab (Suc 0) s b [demo_task l es ed es_err ed_err] =
     Inr [\<lparr> r_lambda = l, r_es = es, r_ed = ed, r_es_err = es_err, r_ed_err = ed_err \<rparr>]"
  by (simp add: reduce_task_def block_avg_column_def column_def demo_task_def demo_collab_def)

lemma demo_thermo_eq:
  "stage_thermo demo_collab
     \<lparr> all_tasks = [demo_task l es ed es_err ed_err], task_endpnt = None, conf_natoms = Suc 0 \<rparr>
     (Suc 0) s b = Inr demo_thermo"
  by (simp add: stage_thermo_def getitem_def p_compute_thermo_def
      block_avg_column_def column_def demo_task_def demo_collab_def demo_thermo_def)

lemma demo_integrate: "integrate_stage demo_collab ''p'' [l] [x] [e] = Inr (x, e, l / 100)"
  by (simp add: integrate_stage_def getitem_def demo_collab_def)

lemma demo_estimate:
  "stages d = Some (demo_stage [demo_task l es ed es_err ed_err]) \<Longrightarrow>
   stage_integrand sw st [\<lparr> r_lambda = l, r_es = es, r_ed = ed, r_es_err = es_err, r_ed_err = ed_err \<rparr>]
     = Inr ([x], [e]) \<Longrightarrow>
   stage_estimate demo_collab stages d demo_config None ''inte'' ''p'' sw st
     = Inr (x, (e, l / 100), demo_thermo)"
  by (simp add: stage_estimate_def p_post_tasks_def demo_stage_def del: reduce_tasks.simps)
     (simp add: demo_reduce demo_thermo_eq demo_integrate del: reduce_tasks.simps)

lemma sqrt_25_10000: "sqrt (25 / 10000) = 5 / 100"
  by (rule real_sqrt_unique) (simp_all add: power2_eq_square)

text \<open>
  C4. When the stages of a multi-stage run return \<open>(e\<^sub>i, (statErr\<^sub>i, sysErr\<^sub>i))\<close>, \<open>post_tasks\<close>
  returns the sum of the \<open>e\<^sub>i\<close>, the square root of the sum of the squared statistical
  errors, and the sum of the systematic errors: for the two stages of the two-step
  protocol and for the three stages of the three-step protocol. In the concrete runs below
  statistical errors 0.03 and 0.04 compose to 0.05 and systematic errors 0.001 and 0.002
  to 0.003.
\<close>

theorem post_tasks_composition:
  "(stages (path_join d ''00.lj_on'') = None \<and> stages (path_join d ''00.deep_on'') \<noteq> None \<and>
    stage_estimate X stages (path_join d ''00.deep_on'') jd n m sc ''two-step'' ''deep_on''
      = Inr (e0, (s0, y0), t0) \<and>
    stage_estimate X stages (path_join d ''01.spring_off'') jd n m sc ''two-step'' ''spring_off''
      = Inr (e1, (s1, y1), t1)
    \<longrightarrow> post_tasks X stages d jd n m sc
          = Inr (e0 + e1, (sqrt (s0\<^sup>2 + s1\<^sup>2), y0 + y1), t1))
   \<and> (stages (path_join d ''00.lj_on'') \<noteq> None \<and>
      stage_estimate X stages (path_join d ''00.lj_on'') jd n m sc ''three-step'' ''lj_on''
        = Inr (e0, (s0, y0), t0) \<and>
      stage_estimate X stages (path_join d ''01.deep_on'') jd n m sc ''three-step'' ''deep_on''
        = Inr (e1, (s1, y1), t1) \<and>
      stage_estimate X stages (path_join d ''02.spring_off'') jd n m sc ''three-step'' ''spring_off''
        = Inr (e2, (s2, y2), t2)
      \<longrightarrow> post_tasks X stages d jd n m sc
            = Inr (e0 + e1 + e2, (sqrt (s0\<^sup>2 + s1\<^sup>2 + s2\<^sup>2), y0 + y1 + y2), t2))"
  by (auto simp: post_tasks_def)

lemma e2a: "stage_estimate demo_collab demo_two_step ''job/00.deep_on'' demo_config None ''inte'' ''p'' ''two-step'' ''deep_on''
   = Inr (1, (3 / 100, 1 / 1000), demo_thermo)"
  using demo_estimate [of demo_two_step "''job/00.deep_on''" "1/10" 0 "1/10" 0 "3/1000" "''two-step''" "''deep_on''" 1 "3/100"]
  by (simp add: demo_two_step_def stage_integrand_def)

lemma e2b: "stage_estimate demo_collab demo_two_step ''job/01.spring_off'' demo_config None ''inte'' ''p'' ''two-step'' ''spring_off''
   = Inr (- 1, (4 / 100, 2 / 1000), demo_thermo)"
  using demo_estimate [of demo_two_step "''job/01.spring_off''" "2/10" "8/10" 0 "32/1000" 0 "''two-step''" "''spring_off''" "- 1" "4/100"]
  by (simp add: demo_two_step_def stage_integrand_def)

lemma e3a: "stage_estimate demo_collab demo_three_step ''job/00.lj_on'' demo_config None ''inte'' ''p'' ''three-step'' ''lj_on''
   = Inr (1, (3 / 100, 1 / 1000), demo_thermo)"
  using demo_estimate [of demo_three_step "''job/00.lj_on''" "1/10" 0 1 0 "3/100" "''three-step''" "''lj_on''" 1 "3/100"]
  by (simp add: demo_three_step_def stage_integrand_def)

lemma e3b: "stage_estimate demo_collab demo_three_step ''job/01.deep_on'' demo_config None ''inte'' ''p'' ''three-step'' ''deep_on''
   = Inr (1, (4 / 100, 2 / 1000), demo_thermo)"
  using demo_estimate [of demo_three_step "''job/01.deep_on''" "2/10" 0 1 0 "4/100" "''three-step''" "''deep_on''" 1 "4/100"]
  by (simp add: demo_three_step_def stage_integrand_def)

lemma e3c: "stage_estimate demo_collab demo_three_step ''job/02.spring_off'' demo_config None ''inte'' ''p'' ''three-step'' ''spring_off''
   = Inr (1, (0, 3 / 1000), demo_thermo)"
  using demo_estimate [of demo_three_step "''job/02.spring_off''" "3/10" 0 1 0 0 "''three-step''" "''spring_off''" 1 0]
  by (simp add: demo_three_step_def stage_integrand_def)

theorem post_tasks_composition_witness:
  "post_tasks demo_collab demo_two_step ''job'' demo_config None ''inte'' ''p''
     = Inr (0, (5 / 100, 3 / 1000), demo_thermo)
   \<and> post_tasks demo_collab demo_three_step ''job'' demo_config None ''inte'' ''p''
     = Inr (3, (5 / 100, 6 / 1000), demo_thermo)"
proof -
  have j: "path_join ''job'' ''00.lj_on'' = ''job/00.lj_on''"
    "path_join ''job'' ''00.deep_on'' = ''job/00.deep_on''"
    "path_join ''job'' ''01.spring_off'' = ''job/01.spring_off''"
    "path_join ''job'' ''01.deep_on'' = ''job/01.deep_on''"
    "path_join ''job'' ''02.spring_off'' = ''job/02.spring_off''"
    by (simp_all add: path_join_def)
  have two: "post_tasks demo_collab demo_two_step ''job'' demo_config None ''inte'' ''p''
     = Inr (1 + (- 1), (sqrt ((3 / 100)\<^sup>2 + (4 / 100)\<^sup>2), 1 / 1000 + 2 / 1000), demo_thermo)"
    using post_tasks_composition [of demo_two_step "''job''" demo_collab demo_config None "''inte''" "''p''"
        1 "3/100" "1/1000" demo_thermo "- 1" "4/100" "2/1000" demo_thermo] e2a e2b
    by (simp add: j) (simp add: demo_two_step_def)
  have three: "post_tasks demo_collab demo_three_step ''job'' demo_config None ''inte'' ''p''
     = Inr (1 + 1 + 1, (sqrt ((3 / 100)\<^sup>2 + (4 / 100)\<^sup>2 + 0\<^sup>2), 1 / 1000 + 2 / 1000 + 3 / 1000), demo_thermo)"
    using post_tasks_composition [of demo_three_step "''job''" demo_collab demo_config None "''inte''" "''p''"
        1 "3/100" "1/1000" demo_thermo 1 "4/100" "2/1000" demo_thermo 1 0 "3/1000" demo_thermo] e3a e3b e3c
    by (simp add: j) (simp add: demo_three_step_def)
  have s: "sqrt ((3 / 100)\<^sup>2 + (4 / 100)\<^sup>2) = 5 / 100"
    using sqrt_25_10000 by (simp add: power2_eq_square)
  show ?thesis using two three s by simp
qed

subsection \<open>Normalisation by the atom count\<close>

lemma getitem_first: "xs \<noteq> [] \<Longrightarrow> getitem xs 0 = Inr (hd xs)"
  by (cases xs) (auto simp: getitem_def)

lemma mbar_readout_scaling:
  assumes "Df \<noteq> []" and "hd Df \<noteq> []" and "dDf \<noteq> []" and "hd dDf \<noteq> []"
  shows "mbar_readout kt n Df dDf =
           Inr (last (hd Df) / real n * kt, last (hd dDf) / sqrt (real n) * kt)"
proof -
  have "getitem (map (map (\<lambda>x. x / real n)) Df) 0 = Inr (map (\<lambda>x. x / real n) (hd Df))"
    using assms(1) by (simp add: getitem_first hd_map)
  moreover have "getitem (map (map (\<lambda>x. x / sqrt (real n))) dDf) 0
      = Inr (map (\<lambda>x. x / sqrt (real n)) (hd dDf))"
    using assms(3) by (simp add: getitem_first hd_map)
  ultimately show ?thesis
    using assms(2,4) by (simp add: mbar_readout_def getitem_last last_map)
qed




subsection \<open>The reweighting estimator\<close>

text \<open>
  \<^verbatim>\<open>_post_tasks_mbar\<close> reads \<^verbatim>\<open>switch_style\<close> in the body of its loop (lines 825-842). The
  name is neither a parameter (those are \<^verbatim>\<open>switch\<close> and \<^verbatim>\<open>step\<close>) nor assigned in the
  function nor bound in the module, so the first task raises \<^verbatim>\<open>NameError\<close>; without a task
  the last statement's \<^verbatim>\<open>all_tasks[-1]\<close> raises. The estimator returns on no input.
\<close>

lemma switch_style_unbound: "load_global ''switch_style'' = Inl (NameError ''switch_style'')"
  by (simp add: load_global_def hti_module_names_def)

lemma mbar_block_fails:
  "mbar_block kt skip al lam c9 c8 = Inl (NameError ''switch_style'')"
  by (simp add: mbar_block_def switch_style_unbound Let_def)

lemma mbar_loop_fails: "\<exists>e. mbar_loop kt skip al (t # ts) ukn nk = Inl e"
  by (simp add: mbar_block_fails split: sum.splits)

lemma mbar_never_returns: "p_post_tasks_mbar X stages d jd n sw st \<noteq> Inr r"
proof (cases "stages d")
  case None
  then show ?thesis by (simp add: p_post_tasks_mbar_def)
next
  case (Some s)
  show ?thesis
  proof (cases "all_tasks s")
    case Nil
    then show ?thesis using Some
      by (auto simp: p_post_tasks_mbar_def Let_def getitem_def split: sum.splits)
  next
    case (Cons t ts)
    obtain e where "mbar_loop (Boltzmann X * temp jd / electron_volt X) (stat_skip jd)
        (map lambda_out (all_tasks s)) (t # ts) [] [] = Inl e"
      using mbar_loop_fails by blast
    then show ?thesis using Some Cons
      by (simp add: p_post_tasks_mbar_def Let_def)
  qed
qed

text \<open>
  C2 (the code against the claim). The claim says that the reweighting estimator builds
  \<open>U[k,n]\<close>, calls the solver and returns the scaled free-energy difference. On a stage of
  one task with a well-formed thermo table it raises \<^verbatim>\<open>NameError\<close> before the matrix is
  built.
\<close>

theorem mbar_name_error:
  "p_post_tasks_mbar demo_collab demo_two_step ''job/00.deep_on'' demo_config None
     ''two-step'' ''deep_on'' = Inl (NameError ''switch_style'')"
  by (simp add: p_post_tasks_mbar_def demo_two_step_def demo_stage_def demo_task_def column_def
      mbar_block_fails Let_def)


subsection \<open>The guard of the end points\<close>

text \<open>
  C5. On a parsed sequence the guard returns a sequence of the same length in which a
  first value 0 is replaced by \<open>protect_eps\<close>, a last value 1 by \<open>1 - protect_eps\<close>, and
  every other value is unchanged. The sequence is not empty (the code reads its first
  value), and a sequence of one value is not guarded with \<open>protect_eps = 1\<close>: there the two
  replacements would hit the same value in turn. The spec's schedules have at least two
  values.
\<close>

theorem protect_ends_spec:
  assumes "all_lambda \<noteq> []" and "length all_lambda = 1 \<longrightarrow> eps \<noteq> 1"
  shows "\<exists>ys. protect_ends (JNum eps) all_lambda = Inr ys \<and> length ys = length all_lambda
          \<and> (\<forall>i < length all_lambda. ys ! i =
               (if i = 0 \<and> all_lambda ! 0 = 0 then eps
                else if i = length all_lambda - 1 \<and> all_lambda ! i = 1 then 1 - eps
                else all_lambda ! i))"
proof (cases all_lambda)
  case Nil
  then show ?thesis using assms by simp
next
  case (Cons x xs)
  show ?thesis
  proof (cases "xs = []")
    case True
    then show ?thesis using Cons assms by (auto simp: protect_ends_def getitem_def)
  next
    case False
    then have l: "last (x # xs) = last xs" "last (y # xs) = last xs" for y by simp_all
    show ?thesis using Cons False
      by (auto simp: protect_ends_def getitem_first getitem_last nth_list_update last_conv_nth nth_Cons split: nat.splits)
  qed
qed

theorem protect_ends_witness:
  "protect_ends (JNum (1 / 100)) [0, 1 / 2, 1] = Inr [1 / 100, 1 / 2, 99 / 100]
   \<and> protect_ends (JNum (1 / 100)) [1 / 10, 1 / 2, 9 / 10] = Inr [1 / 10, 1 / 2, 9 / 10]"
  using protect_ends_spec [of "[0, 1 / 2, 1]" "1 / 100"]
        protect_ends_spec [of "[1 / 10, 1 / 2, 9 / 10]" "1 / 100"]
  by (simp add: protect_ends_def getitem_def)

subsection \<open>The refined schedule\<close>

lemma getitem_nat: "i < length xs \<Longrightarrow> getitem xs (int i) = Inr (xs ! i)"
  by (simp add: getitem_def)

lemma getitem_nat_Suc: "Suc i < length xs \<Longrightarrow> getitem xs (int i + 1) = Inr (xs ! Suc i)"
  using getitem_nat [of "Suc i" xs] by (simp add: add.commute)

lemma length_inserted: "length (inserted_points t hh m) = nat m - 1"
  by (simp add: inserted_points_def)

lemma filter_zip_sentinel:
  "filter (\<lambda>(t, b). b \<noteq> - 1) (zip xs (replicate (length xs) (- 1 :: int))) = []"
  by (induction xs) auto

lemma refine_loop_spec:
  assumes "ii + k < length all_t" and "ii + k \<le> length ms" and "\<forall>m \<in> set ms. 1 \<le> m"
  shows "\<exists>ts bs. refine_loop all_t ms ii k = Inr (ts, bs)
           \<and> int (length ts) = int k + (\<Sum>m\<leftarrow>take k (drop ii ms). m - 1)
           \<and> length bs = length ts
           \<and> map fst (filter (\<lambda>(t, b). b \<noteq> - 1) (zip ts bs)) = take k (drop ii all_t)
           \<and> filter (\<lambda>b. b \<noteq> - 1) bs = map int [ii ..< ii + k]"
  using assms
proof (induction k arbitrary: ii)
  case 0
  then show ?case by simp
next
  case (Suc k)
  from Suc.prems have lt: "ii < length all_t" "Suc ii < length all_t" "ii < length ms" by auto
  from Suc.prems have "Suc ii + k < length all_t" "Suc ii + k \<le> length ms" by auto
  from Suc.IH [OF this Suc.prems(3)] obtain ts bs where
    rec: "refine_loop all_t ms (Suc ii) k = Inr (ts, bs)"
    and len: "int (length ts) = int k + (\<Sum>m\<leftarrow>take k (drop (Suc ii) ms). m - 1)"
    and lb: "length bs = length ts"
    and pts: "map fst (filter (\<lambda>(t, b). b \<noteq> - 1) (zip ts bs)) = take k (drop (Suc ii) all_t)"
    and idx: "filter (\<lambda>b. b \<noteq> - 1) bs = map int [Suc ii ..< Suc ii + k]"
    by blast
  define m where "m = ms ! ii"
  define ins where "ins = inserted_points (all_t ! ii) ((all_t ! Suc ii - all_t ! ii) / real_of_int m) m"
  have m1: "1 \<le> m" using Suc.prems(3) lt(3) by (simp add: m_def)
  have lins: "int (length ins) = m - 1" using m1 by (simp add: ins_def length_inserted)
  have step: "refine_loop all_t ms ii (Suc k) =
      Inr (all_t ! ii # ins @ ts, int ii # replicate (length ins) (- 1) @ bs)"
    using lt rec by (simp add: getitem_nat getitem_nat_Suc m_def ins_def Let_def)
  have dm: "drop ii ms = m # drop (Suc ii) ms"
    using lt(3) by (simp add: m_def Cons_nth_drop_Suc)
  have dt: "drop ii all_t = all_t ! ii # drop (Suc ii) all_t"
    using lt(1) by (simp add: Cons_nth_drop_Suc)
  have z: "zip (ins @ ts) (replicate (length ins) (- 1) @ bs)
      = zip ins (replicate (length ins) (- 1)) @ zip ts bs"
    by simp
  have "int (length (all_t ! ii # ins @ ts)) = int (Suc k) + (\<Sum>m\<leftarrow>take (Suc k) (drop ii ms). m - 1)"
    using len lins by (simp add: dm)
  moreover have "length (int ii # replicate (length ins) (- 1) @ bs) = length (all_t ! ii # ins @ ts)"
    using lb by simp
  moreover have "map fst (filter (\<lambda>(t, b). b \<noteq> - 1)
        (zip (all_t ! ii # ins @ ts) (int ii # replicate (length ins) (- 1) @ bs)))
      = take (Suc k) (drop ii all_t)"
    using pts by (simp add: z filter_zip_sentinel dt del: zip_append)
  moreover have "filter (\<lambda>b. b \<noteq> - 1) (int ii # replicate (length ins) (- 1) @ bs)
      = map int [ii ..< ii + Suc k]"
    using idx by (simp add: upt_conv_Cons)
  ultimately show ?case using step by blast
qed

text \<open>
  C6. For a schedule of \<open>n \<ge> 1\<close> points and subdivision counts \<open>m\<^sub>i \<ge> 1\<close>, one per interval,
  the refined schedule has \<open>n + \<Sum>(m\<^sub>i - 1)\<close> points and the back-map has as many entries.
  The entries of the back-map other than the sentinel \<open>-1\<close> are \<open>0, 1, ..., n-1\<close> in this
  order, and the refined points at their positions are the original points in order:
  every original point stands at a position whose back-map entry is its own index. All
  other positions, which hold the \<open>\<Sum>(m\<^sub>i - 1)\<close> inserted points, carry the sentinel.
\<close>

theorem refined_schedule_spec:
  assumes "all_t \<noteq> []" and "length ms = length all_t - 1" and "\<forall>m \<in> set ms. 1 \<le> m"
  shows "\<exists>rt bm. refine_schedule all_t ms = Inr (rt, bm)
           \<and> int (length rt) = int (length all_t) + (\<Sum>m\<leftarrow>ms. m - 1)
           \<and> length bm = length rt
           \<and> map fst (filter (\<lambda>(t, b). b \<noteq> - 1) (zip rt bm)) = all_t
           \<and> filter (\<lambda>b. b \<noteq> - 1) bm = map int [0 ..< length all_t]"
proof -
  define n where "n = length all_t - 1"
  have n: "length all_t = Suc n" using assms(1) by (cases all_t) (simp_all add: n_def)
  have "0 + n < length all_t" "0 + n \<le> length ms" using assms(2) n by simp_all
  from refine_loop_spec [OF this assms(3)] obtain ts bs where
    rec: "refine_loop all_t ms 0 n = Inr (ts, bs)"
    and len: "int (length ts) = int n + (\<Sum>m\<leftarrow>take n ms. m - 1)"
    and lb: "length bs = length ts"
    and pts: "map fst (filter (\<lambda>(t, b). b \<noteq> - 1) (zip ts bs)) = take n all_t"
    and idx: "filter (\<lambda>b. b \<noteq> - 1) bs = map int [0 ..< n]"
    by auto
  have res: "refine_schedule all_t ms = Inr (ts @ [last all_t], bs @ [int (length all_t) - 1])"
    using rec assms(1) by (simp add: refine_schedule_def n_def getitem_last Let_def)
  have tk: "take n all_t @ [last all_t] = all_t"
    using assms(1) n by (metis butlast_conv_take append_butlast_last_id diff_Suc_1)
  have nn: "int (length all_t) - 1 = int n" using n by simp
  have "int (length (ts @ [last all_t])) = int (length all_t) + (\<Sum>m\<leftarrow>ms. m - 1)"
    using len assms(2) n by simp
  moreover have "length (bs @ [int (length all_t) - 1]) = length (ts @ [last all_t])"
    using lb by simp
  moreover have "map fst (filter (\<lambda>(t, b). b \<noteq> - 1)
       (zip (ts @ [last all_t]) (bs @ [int (length all_t) - 1]))) = all_t"
    using pts lb tk by (simp add: nn)
  moreover have "filter (\<lambda>b. b \<noteq> - 1) (bs @ [int (length all_t) - 1]) = map int [0 ..< length all_t]"
    using idx by (simp add: nn n)
  ultimately show ?thesis using res by blast
qed

theorem refined_schedule_witness:
  "refine_schedule [0, 3, 4] [3, 1] = Inr ([0, 1, 2, 3, 4], [0, - 1, - 1, 1, 2])"
  using refined_schedule_spec [of "[0, 3, 4]" "[3, 1]"]
  by (simp add: refine_schedule_def getitem_def inserted_points_def Let_def upt_rec
      eval_nat_numeral)

subsection \<open>What task generation may change\<close>




lemma oc_read: "only_changes P (io_read f)"
  by (simp add: only_changes_def io_read_def)









lemma inside_dir_trans: "inside_dir a b \<Longrightarrow> inside_dir b c \<Longrightarrow> inside_dir a c"
  by (auto simp: inside_dir_def prefix_def)


lemma task_name_start: "''task.'' @ fmt06 idx \<noteq> [] \<and> hd (''task.'' @ fmt06 idx) \<noteq> CHR ''/''"
  by simp








subsection \<open>Paths and task directories\<close>



lemma read_regular: "map_of fs p = Some (File d) \<Longrightarrow> read_file fs p = Inr d"
  by (simp add: read_file_def eval_nat_numeral)

lemma isfile_regular: "map_of fs p = Some (File d) \<Longrightarrow> isfile fs p"
  by (simp add: isfile_def eval_nat_numeral)

lemma isfile_missing: "map_of fs p = None \<Longrightarrow> \<not> isfile fs p"
  by (simp add: isfile_def eval_nat_numeral)







subsection \<open>Refinement needs a prior integration result\<close>

text \<open>
  C8. When \<^verbatim>\<open>hti.out\<close> is not a file of the source task directory, \<^verbatim>\<open>refine_task\<close> raises
  \<^verbatim>\<open>RuntimeError\<close> and leaves the file system as it was: no schedule is computed and no task
  is generated. Whenever \<^verbatim>\<open>refine_task\<close> returns, the file was there.
\<close>

theorem refine_needs_prior_result:
  "(\<not> isfile fs (path_join (abspath cwd from0) ''hti.out'') \<longrightarrow>
      refine_task X Y cwd from0 to0 err print_ref fs =
        (Inl (RuntimeError (''cannot find file '' @ path_join (abspath cwd from0) ''hti.out'' @
                '', task should be computed befor refined'')), fs))
   \<and> (\<forall>fs'. refine_task X Y cwd from0 to0 err print_ref fs = (Inr (), fs') \<longrightarrow>
         isfile fs (path_join (abspath cwd from0) ''hti.out''))"
  by (auto simp: refine_task_def Let_def)

lemma demo_paths:
  "abspath ''/w'' ''old'' = ''/w/old''" "abspath ''/w'' ''new'' = ''/w/new''"
  "path_join ''/w/old'' ''hti.out'' = ''/w/old/hti.out''"
  "path_join ''/w/old'' ''in.json'' = ''/w/old/in.json''"
  by (simp_all add: abspath_def path_join_def)

lemma demo_plan_print:
  "refine_plan demo_collab demo_io ''/w/old'' e True demo_fs = Inr None"
  by (simp add: refine_plan_def demo_paths loadtxt_def read_regular demo_fs_def loaded_column_def
      column_def demo_collab_def)

theorem refine_needs_prior_result_witness:
  "refine_task demo_collab demo_io ''/w'' ''old'' ''new'' (1 / 100) True [] =
     (Inl (RuntimeError ''cannot find file /w/old/hti.out, task should be computed befor refined''), [])
   \<and> refine_task demo_collab demo_io ''/w'' ''old'' ''new'' (1 / 100) True demo_fs = (Inr (), demo_fs)
   \<and> isfile demo_fs ''/w/old/hti.out''"
proof -
  have a: "\<not> isfile [] ''/w/old/hti.out''" by (simp add: isfile_missing)
  have b: "isfile demo_fs ''/w/old/hti.out''"
    by (rule isfile_regular [where d = "Table [[1 / 10, 1, 0, 0, 0, 0, 0], [9 / 10, 2, 0, 0, 0, 0, 0]]"])
       (simp add: demo_fs_def)
  have c: "refine_task demo_collab demo_io ''/w'' ''old'' ''new'' (1 / 100) True demo_fs = (Inr (), demo_fs)"
    using b by (simp add: refine_task_def demo_paths io_bind_def io_read_def demo_plan_print io_lift_def)
  show ?thesis
    using refine_needs_prior_result [of "[]" "''/w''" "''old''" demo_collab demo_io "''new''" "1 / 100" True]
      refine_needs_prior_result [of demo_fs "''/w''" "''old''" demo_collab demo_io "''new''" "1 / 100" True]
      a b c
    by (simp add: demo_paths)
qed

subsection \<open>The copy of the reused output\<close>




subsection \<open>A successful refinement, step by step\<close>









subsection \<open>Refinement reuses the output of the source stage\<close>
















subsection \<open>Refinement regenerates the stage in one step\<close>




end
